theory Spec2Isabelle
  imports Complex_Main
begin

section \<open>Numerical model\<close>

text \<open>
  The repository computes with NumPy arrays of IEEE double precision numbers. The
  embedding below keeps the structure of every function (array allocation, loops,
  index arithmetic, guards) and reads the arithmetic in the real and complex fields:
  \<open>np.sqrt\<close>, \<open>np.sin\<close>, \<open>np.pi\<close>, \<open>+\<close>, \<open>*\<close> and \<open>/\<close> are the exact operations
  of \<^typ>\<open>real\<close> and \<^typ>\<open>complex\<close>. One-dimensional arrays are lists, of real
  numbers for an array of doubles and of complex numbers for a complex array.
  Rounding is therefore outside the model: a statement that holds "within tolerance"
  in the source is proved here as an exact equality.

  Where NumPy yields \<open>nan\<close> or \<open>inf\<close>, a real operation returns a conventional
  value instead (\<open>sqrt\<close> of a negative number, division by zero). The ladder
  operators only take roots of non-negative numbers and only divide behind the norm
  guard; the position operator takes the roots of \<open>1/2\<close>. The box functions divide
  by the box length \<open>L\<close> and take the root of \<open>2 / L\<close>, so their values agree with
  NumPy for \<open>0 < L\<close>; the round trip is stated under that hypothesis.
\<close>

section \<open>Errors\<close>

text \<open>
  \<open>IndexError\<close> and \<open>ValueError\<close> are the exceptions that the Python and NumPy
  operations used by the source can raise. \<open>InvalidGridError\<close> and \<open>ConsistencyError\<close>
  are the error names of the specification; the source defines no exception class and
  contains no \<open>raise\<close> statement, so no function below returns them.
\<close>

datatype error = IndexError | ValueError | InvalidGridError | ConsistencyError

section \<open>Ladder operators (ladder\_operators\_visual.py)\<close>

text \<open>
  \<^verbatim>\<open>
  def apply_creation(self, coeffs):
      new_coeffs = np.zeros(len(coeffs))
      for n in range(len(coeffs) - 1):
          new_coeffs[n + 1] = np.sqrt(n + 1) * coeffs[n]
      return new_coeffs
  \<close>
  The argument is an array of real or of complex coefficients; it is a list of complex
  numbers here, a real array being one whose entries have imaginary part zero.
  \<open>np.zeros(k)\<close> is an array of \<open>k\<close> double precision zeros, so the result is a list of
  real numbers: storing the product \<open>np.sqrt(n + 1) * coeffs[n]\<close> into it keeps the real
  part of the product (NumPy warns that the imaginary part is discarded and does not
  raise). \<open>range(len(coeffs) - 1)\<close> is empty for the empty array, as \<open>[0..<0 - 1]\<close> is on
  the natural numbers. Reading or writing an array outside its bounds raises
  \<open>IndexError\<close>; the loops carry that check.
\<close>

definition np_zeros :: "nat \<Rightarrow> real list" where
  "np_zeros k = replicate k 0"

definition creation_step :: "complex list \<Rightarrow> nat \<Rightarrow> real list \<Rightarrow> real list" where
  "creation_step coeffs n new_coeffs =
     new_coeffs[n + 1 := Re (complex_of_real (sqrt (real (n + 1))) * coeffs ! n)]"

fun creation_loop :: "complex list \<Rightarrow> nat list \<Rightarrow> real list \<Rightarrow> error + real list" where
  "creation_loop coeffs [] new_coeffs = Inr new_coeffs"
| "creation_loop coeffs (n # ns) new_coeffs =
     (if n < length coeffs \<and> n + 1 < length new_coeffs
      then creation_loop coeffs ns (creation_step coeffs n new_coeffs)
      else Inl IndexError)"

definition apply_creation :: "complex list \<Rightarrow> error + real list" where
  "apply_creation coeffs =
     creation_loop coeffs [0..<length coeffs - 1] (np_zeros (length coeffs))"

text \<open>
  \<^verbatim>\<open>
  def apply_annihilation(self, coeffs):
      new_coeffs = np.zeros(len(coeffs))
      for n in range(1, len(coeffs)):
          new_coeffs[n - 1] = np.sqrt(n) * coeffs[n]
      return new_coeffs
  \<close>
  The loop starts at 1, so \<open>n - 1\<close> is never a negative (wrapping) index.
\<close>

definition annihilation_step :: "complex list \<Rightarrow> nat \<Rightarrow> real list \<Rightarrow> real list" where
  "annihilation_step coeffs n new_coeffs =
     new_coeffs[n - 1 := Re (complex_of_real (sqrt (real n)) * coeffs ! n)]"

fun annihilation_loop :: "complex list \<Rightarrow> nat list \<Rightarrow> real list \<Rightarrow> error + real list" where
  "annihilation_loop coeffs [] new_coeffs = Inr new_coeffs"
| "annihilation_loop coeffs (n # ns) new_coeffs =
     (if n < length coeffs \<and> 1 \<le> n \<and> n - 1 < length new_coeffs
      then annihilation_loop coeffs ns (annihilation_step coeffs n new_coeffs)
      else Inl IndexError)"

definition apply_annihilation :: "complex list \<Rightarrow> error + real list" where
  "apply_annihilation coeffs =
     annihilation_loop coeffs [1..<length coeffs] (np_zeros (length coeffs))"

text \<open>
  The two button callbacks apply an operator and renormalise the stored state:
  \<^verbatim>\<open>
  def apply_creation_op(event):
      state['coeffs'] = qho.apply_creation(state['coeffs'])
      norm = np.sqrt(np.sum(np.abs(state['coeffs'])**2))
      if norm > 1e-10:
          state['coeffs'] /= norm
      update_plots()
  \<close>
  \<open>apply_annihilation_op\<close> is the same with \<open>apply_annihilation\<close>. The state is the
  dictionary's single entry, passed and returned; the redraw does not change it.
  The stored state is always an array of doubles (\<open>np.zeros(n_max)\<close> at the start and
  at a reset, the result of an operator afterwards), so it is a list of real numbers,
  handed to the operator as the complex list with imaginary parts zero.
  \<open>renormalize\<close> is the three lines after the operator call.
\<close>

definition coeffs_norm :: "real list \<Rightarrow> real" where
  "coeffs_norm coeffs = sqrt (sum_list (map (\<lambda>c. \<bar>c\<bar> ^ 2) coeffs))"

definition renormalize :: "real list \<Rightarrow> real list" where
  "renormalize coeffs =
     (let norm = coeffs_norm coeffs
      in if norm > 1 / 10 ^ 10 then map (\<lambda>c. c / norm) coeffs else coeffs)"

definition apply_creation_op :: "real list \<Rightarrow> error + real list" where
  "apply_creation_op coeffs =
     (case apply_creation (map complex_of_real coeffs) of
        Inl e \<Rightarrow> Inl e
      | Inr new \<Rightarrow> Inr (renormalize new))"

definition apply_annihilation_op :: "real list \<Rightarrow> error + real list" where
  "apply_annihilation_op coeffs =
     (case apply_annihilation (map complex_of_real coeffs) of
        Inl e \<Rightarrow> Inl e
      | Inr new \<Rightarrow> Inr (renormalize new))"

text \<open>
  The same two loops without the bounds checks; they are shown below to be what
  \<open>apply_creation\<close> and \<open>apply_annihilation\<close> return.
\<close>

definition creation_result :: "complex list \<Rightarrow> real list" where
  "creation_result coeffs =
     fold (creation_step coeffs) [0..<length coeffs - 1] (np_zeros (length coeffs))"

definition annihilation_result :: "complex list \<Rightarrow> real list" where
  "annihilation_result coeffs =
     fold (annihilation_step coeffs) [Suc 0..<length coeffs] (np_zeros (length coeffs))"

section \<open>Particle in a box (change of basis.py)\<close>

subsection \<open>NumPy operations used by the class\<close>

text \<open>
  \<open>np.linspace(start, stop, num)\<close> raises \<open>ValueError\<close> for a negative \<open>num\<close> and
  otherwise returns the \<open>num\<close> points \<open>start + j * step\<close>, \<open>step = (stop - start) / (num - 1)\<close>
  (for \<open>num = 1\<close> the single point \<open>start\<close>, which the formula also gives).
\<close>

definition np_linspace :: "real \<Rightarrow> real \<Rightarrow> int \<Rightarrow> error + real list" where
  "np_linspace start stop num =
     (if num < 0 then Inl ValueError
      else Inr (map (\<lambda>j. start + real j * ((stop - start) / (real_of_int num - 1)))
                  [0..<nat num]))"

text \<open>
  An elementwise operation on two one-dimensional arrays: equal lengths combine
  pointwise, an array of length one is broadcast against the other, and any other
  pair of lengths raises \<open>ValueError\<close>.
\<close>

definition np_broadcast :: "('a \<Rightarrow> 'b \<Rightarrow> 'c) \<Rightarrow> 'a list \<Rightarrow> 'b list \<Rightarrow> error + 'c list" where
  "np_broadcast f a b =
     (if length a = length b then Inr (map2 f a b)
      else if length b = 1 then Inr (map (\<lambda>u. f u (b ! 0)) a)
      else if length a = 1 then Inr (map (\<lambda>v. f (a ! 0) v) b)
      else Inl ValueError)"

text \<open>
  \<open>np.diff(x)\<close> is \<open>x[1:] - x[:-1]\<close>, and \<open>np.trapz(y, x)\<close> is
  \<open>(d * (y[1:] + y[:-1]) / 2.0).sum()\<close> with \<open>d = np.diff(x)\<close>.
\<close>

definition np_diff :: "real list \<Rightarrow> real list" where
  "np_diff xs = map2 (\<lambda>a b. a - b) (tl xs) (butlast xs)"

definition np_trapz :: "complex list \<Rightarrow> real list \<Rightarrow> error + complex" where
  "np_trapz y xs =
     (case np_broadcast (\<lambda>d s. complex_of_real d * s / 2) (np_diff xs)
             (map2 (\<lambda>a b. a + b) (tl y) (butlast y)) of
        Inl e \<Rightarrow> Inl e
      | Inr r \<Rightarrow> Inr (sum_list r))"

subsection \<open>The class\<close>

text \<open>
  \<^verbatim>\<open>
  def __init__(self, L=1.0, n_max=10, n_points=1000):
      self.L = L
      self.n_max = n_max
      self.x = np.linspace(0, L, n_points)
      self.dx = self.x[1] - self.x[0]
  \<close>
  Reading \<open>self.x[1]\<close> raises \<open>IndexError\<close> when the grid has fewer than two points.
\<close>

record ParticleInBox =
  self_L :: real
  self_n_max :: int
  self_x :: "real list"
  self_dx :: real

definition init :: "real \<Rightarrow> int \<Rightarrow> int \<Rightarrow> error + ParticleInBox" where
  "init L n_max n_points =
     (case np_linspace 0 L n_points of
        Inl e \<Rightarrow> Inl e
      | Inr xs \<Rightarrow>
          if length xs < 2 then Inl IndexError
          else Inr \<lparr>self_L = L, self_n_max = n_max, self_x = xs, self_dx = xs ! 1 - xs ! 0\<rparr>)"

text \<open>
  \<^verbatim>\<open>
  def position_wavefunction(self, n, x):
      n_quantum = n + 1
      normalization = np.sqrt(2.0 / self.L)
      psi = normalization * np.sin(n_quantum * np.pi * x / self.L)
      return psi
  \<close>
  The function is applied to the whole grid at once; \<open>position_wavefunction\<close> is its
  value at one point and \<open>position_wavefunction_grid\<close> the array.
\<close>

definition position_wavefunction :: "ParticleInBox \<Rightarrow> nat \<Rightarrow> real \<Rightarrow> real" where
  "position_wavefunction self n xv =
     (let n_quantum = real n + 1;
          normalization = sqrt (2 / self_L self)
      in normalization * sin (n_quantum * pi * xv / self_L self))"

definition position_wavefunction_grid :: "ParticleInBox \<Rightarrow> nat \<Rightarrow> real list" where
  "position_wavefunction_grid self n = map (position_wavefunction self n) (self_x self)"

text \<open>
  \<^verbatim>\<open>
  def energy_to_position(self, coefficients):
      coefficients = np.array(coefficients)
      n_states = len(coefficients)
      psi_x = np.zeros_like(self.x, dtype=complex)
      for n in range(n_states):
          psi_x += coefficients[n] * self.position_wavefunction(n, self.x)
      return psi_x
  \<close>
  Every index read is below \<open>n_states\<close> and both operands of \<open>+=\<close> have the length of
  the grid, so the function has no failing path.
\<close>

definition e2p_step :: "ParticleInBox \<Rightarrow> complex list \<Rightarrow> nat \<Rightarrow> complex list \<Rightarrow> complex list" where
  "e2p_step self coefficients n psi_x =
     map2 (\<lambda>a b. a + b) psi_x
       (map (\<lambda>v. coefficients ! n * complex_of_real v) (position_wavefunction_grid self n))"

definition energy_to_position :: "ParticleInBox \<Rightarrow> complex list \<Rightarrow> complex list" where
  "energy_to_position self coefficients =
     (let n_states = length coefficients;
          psi_x = replicate (length (self_x self)) 0
      in fold (e2p_step self coefficients) [0..<n_states] psi_x)"

text \<open>
  \<^verbatim>\<open>
  def position_to_energy(self, psi_x):
      coefficients = np.zeros(self.n_max, dtype=complex)
      for n in range(self.n_max):
          psi_n = self.position_wavefunction(n, self.x)
          coefficients[n] = np.trapz(psi_n * psi_x, self.x)
      return coefficients
  \<close>
  \<open>np.zeros\<close> raises \<open>ValueError\<close> for a negative size. The product \<open>psi_n * psi_x\<close>
  is an elementwise operation and raises \<open>ValueError\<close> when the lengths do not fit.
\<close>

fun p2e_loop :: "ParticleInBox \<Rightarrow> complex list \<Rightarrow> nat list \<Rightarrow> complex list \<Rightarrow> error + complex list" where
  "p2e_loop self psi_x [] coefficients = Inr coefficients"
| "p2e_loop self psi_x (n # ns) coefficients =
     (case np_broadcast (\<lambda>a b. complex_of_real a * b) (position_wavefunction_grid self n) psi_x of
        Inl e \<Rightarrow> Inl e
      | Inr y \<Rightarrow>
          (case np_trapz y (self_x self) of
             Inl e \<Rightarrow> Inl e
           | Inr v \<Rightarrow>
               if n < length coefficients
               then p2e_loop self psi_x ns (coefficients[n := v])
               else Inl IndexError))"

definition position_to_energy :: "ParticleInBox \<Rightarrow> complex list \<Rightarrow> error + complex list" where
  "position_to_energy self psi_x =
     (if self_n_max self < 0 then Inl ValueError
      else p2e_loop self psi_x [0..<nat (self_n_max self)]
             (replicate (nat (self_n_max self)) 0))"

text \<open>
  The value that one iteration of the loop stores in \<open>coefficients[n]\<close> when
  \<open>psi_x\<close> has the length of the grid, with \<open>np.trapz\<close> written as a sum over the
  grid intervals; it is shown below to be what \<open>position_to_energy\<close> computes.
\<close>

definition trapz_coefficient :: "ParticleInBox \<Rightarrow> complex list \<Rightarrow> nat \<Rightarrow> complex" where
  "trapz_coefficient self psi_x n =
     (\<Sum>i<length (self_x self) - 1.
        complex_of_real (self_x self ! Suc i - self_x self ! i)
        * (complex_of_real (position_wavefunction self n (self_x self ! Suc i)) * psi_x ! Suc i
           + complex_of_real (position_wavefunction self n (self_x self ! i)) * psi_x ! i) / 2)"

section \<open>Two-level system (two-level quantum system.py)\<close>

text \<open>
  The file is a script. The position eigenvalues \<open>x0\<close> and \<open>x1\<close> (module constants
  1.0 and -1.0, "we can choose these") are arguments of the definitions below;
  \<open>alpha\<close>, \<open>c0\<close> and \<open>c1\<close> are the constants the script computes. A column vector of
  shape (2, 1) and a row vector of shape (1, 2) are pairs, a matrix of shape (2, 2) is
  the pair of its rows, and \<open>@\<close> is written out for each pair of shapes that the
  construction of the position operator multiplies. The time propagation and the
  standard deviation of the script (its parts (c) and (d)) are not modelled: what
  they store depends on how the double precision operations round.
\<close>

type_synonym vec2 = "complex \<times> complex"
type_synonym mat2 = "(complex \<times> complex) \<times> (complex \<times> complex)"

definition alpha :: real where
  "alpha = - 1"

definition c0_squared :: real where
  "c0_squared = 1 / 2"

definition c0 :: real where
  "c0 = sqrt c0_squared"

definition c1_squared :: real where
  "c1_squared = 1 / (1 + \<bar>alpha\<bar> ^ 2)"

definition c1 :: real where
  "c1 = sqrt c1_squared"

fun vec_scale :: "complex \<Rightarrow> vec2 \<Rightarrow> vec2" where
  "vec_scale k (u, v) = (k * u, k * v)"

fun mat_scale :: "complex \<Rightarrow> mat2 \<Rightarrow> mat2" where
  "mat_scale k ((a, b), (c, d)) = ((k * a, k * b), (k * c, k * d))"

fun mat_add :: "mat2 \<Rightarrow> mat2 \<Rightarrow> mat2" where
  "mat_add ((a, b), (c, d)) ((e, f), (g, h)) = ((a + e, b + f), (c + g, d + h))"

fun vec_conj_T :: "vec2 \<Rightarrow> vec2" where
  "vec_conj_T (u, v) = (cnj u, cnj v)"

fun mat_conj_T :: "mat2 \<Rightarrow> mat2" where
  "mat_conj_T ((a, b), (c, d)) = ((cnj a, cnj c), (cnj b, cnj d))"

fun ket_bra :: "vec2 \<Rightarrow> vec2 \<Rightarrow> mat2" where
  "ket_bra (u, v) (p, q) = ((u * p, u * q), (v * p, v * q))"

fun mat_ket :: "mat2 \<Rightarrow> vec2 \<Rightarrow> vec2" where
  "mat_ket ((a, b), (c, d)) (u, v) = (a * u + b * v, c * u + d * v)"

text \<open>
  \<^verbatim>\<open>
  ket_x0 = c0 * np.array([[1], [1]])
  ket_x1 = c1 * np.array([[1], [alpha]])
  X_energy = x0 * (ket_x0 @ ket_x0.conj().T) + x1 * (ket_x1 @ ket_x1.conj().T)
  \<close>
\<close>

definition ket_x0 :: vec2 where
  "ket_x0 = vec_scale (complex_of_real c0) (1, 1)"

definition ket_x1 :: vec2 where
  "ket_x1 = vec_scale (complex_of_real c1) (1, complex_of_real alpha)"

definition X_energy :: "real \<Rightarrow> real \<Rightarrow> mat2" where
  "X_energy x0 x1 =
     mat_add (mat_scale (complex_of_real x0) (ket_bra ket_x0 (vec_conj_T ket_x0)))
             (mat_scale (complex_of_real x1) (ket_bra ket_x1 (vec_conj_T ket_x1)))"

text \<open>
  \<open>np.allclose(a, b)\<close> holds when \<open>|a - b| \<le> atol + rtol * |b|\<close> at every entry, with
  the defaults \<open>rtol = 1e-5\<close> and \<open>atol = 1e-8\<close>.
\<close>

definition isclose :: "complex \<Rightarrow> complex \<Rightarrow> bool" where
  "isclose a b \<longleftrightarrow> cmod (a - b) \<le> 1 / 10 ^ 8 + (1 / 10 ^ 5) * cmod b"

fun np_allclose :: "mat2 \<Rightarrow> mat2 \<Rightarrow> bool" where
  "np_allclose ((a, b), (c, d)) ((e, f), (g, h)) \<longleftrightarrow>
     isclose a e \<and> isclose b f \<and> isclose c g \<and> isclose d h"

text \<open>
  \<^verbatim>\<open>
  print("\nVerification that X is Hermitian:")
  print(f"X = X\<dagger>: {np.allclose(X_energy, X_energy.conj().T)} \<checkmark>")
  \<close>
  The outcome of the comparison is printed and the script goes on to the next
  statement whatever it is. \<open>verify_hermitian\<close> is this step as a function of the
  matrix: \<open>Inr\<close> of the printed truth value.
\<close>

definition verify_hermitian :: "mat2 \<Rightarrow> error + bool" where
  "verify_hermitian X = Inr (np_allclose X (mat_conj_T X))"

text \<open>
  \<open>np.linalg.eigh\<close> reads the lower triangle of its argument and returns the
  eigenvalues of that Hermitian matrix in ascending order. For a 2 by 2 matrix with
  diagonal \<open>a\<close>, \<open>d\<close> and lower entry \<open>c\<close> they are the two roots
  \<open>(a + d) / 2 \<plusminus> sqrt (((a - d) / 2)\<^sup>2 + |c|\<^sup>2)\<close> of the characteristic polynomial.
\<close>

fun eigh_values :: "mat2 \<Rightarrow> real \<times> real" where
  "eigh_values ((a, b), (c, d)) =
     (let m = (Re a + Re d) / 2;
          r = sqrt (((Re a - Re d) / 2) ^ 2 + (cmod c) ^ 2)
      in (m - r, m + r))"

section \<open>Properties of the ladder operators\<close>

lemma length_creation_fold:
  "length (fold (creation_step coeffs) ns new) = length new"
  by (induction ns arbitrary: new) (simp_all add: creation_step_def)

lemma length_annihilation_fold:
  "length (fold (annihilation_step coeffs) ns new) = length new"
  by (induction ns arbitrary: new) (simp_all add: annihilation_step_def)

lemma creation_step_nth:
  "Suc n < length new \<Longrightarrow> i < length new \<Longrightarrow>
   creation_step coeffs n new ! i =
     (if i = Suc n then sqrt (real (Suc n)) * Re (coeffs ! n) else new ! i)"
  by (simp add: creation_step_def nth_list_update)

lemma annihilation_step_nth:
  "0 < n \<Longrightarrow> n \<le> length new \<Longrightarrow> i < length new \<Longrightarrow>
   annihilation_step coeffs n new ! i =
     (if Suc i = n then sqrt (real n) * Re (coeffs ! n) else new ! i)"
  by (auto simp: annihilation_step_def nth_list_update)

lemma creation_fold_nth:
  "k < length new \<Longrightarrow> i < length new \<Longrightarrow>
   fold (creation_step coeffs) [0..<k] new ! i =
     (if 0 < i \<and> i \<le> k then sqrt (real i) * Re (coeffs ! (i - 1)) else new ! i)"
proof (induction k)
  case 0
  then show ?case by simp
next
  case (Suc k)
  then have ih: "fold (creation_step coeffs) [0..<k] new ! i =
      (if 0 < i \<and> i \<le> k then sqrt (real i) * Re (coeffs ! (i - 1)) else new ! i)"
    by simp
  have "fold (creation_step coeffs) [0..<Suc k] new ! i =
      creation_step coeffs k (fold (creation_step coeffs) [0..<k] new) ! i"
    by simp
  also have "\<dots> = (if i = Suc k then sqrt (real (Suc k)) * Re (coeffs ! k)
      else fold (creation_step coeffs) [0..<k] new ! i)"
    using Suc.prems by (rule_tac creation_step_nth) (simp_all add: length_creation_fold)
  finally show ?case
    using ih by (auto simp: le_Suc_eq)
qed

lemma annihilation_fold_nth:
  "k \<le> length new \<Longrightarrow> i < length new \<Longrightarrow>
   fold (annihilation_step coeffs) [Suc 0..<k] new ! i =
     (if Suc i < k then sqrt (real (Suc i)) * Re (coeffs ! Suc i) else new ! i)"
proof (induction k)
  case 0
  then show ?case by simp
next
  case (Suc k)
  show ?case
  proof (cases "k = 0")
    case True
    then show ?thesis by simp
  next
    case False
    then have upt: "[Suc 0..<Suc k] = [Suc 0..<k] @ [k]" by simp
    have ih: "fold (annihilation_step coeffs) [Suc 0..<k] new ! i =
        (if Suc i < k then sqrt (real (Suc i)) * Re (coeffs ! Suc i) else new ! i)"
      using Suc by simp
    have "fold (annihilation_step coeffs) [Suc 0..<Suc k] new ! i =
        annihilation_step coeffs k (fold (annihilation_step coeffs) [Suc 0..<k] new) ! i"
      by (simp only: upt fold_append fold.simps comp_apply id_apply)
    also have "\<dots> = (if Suc i = k then sqrt (real k) * Re (coeffs ! k)
        else fold (annihilation_step coeffs) [Suc 0..<k] new ! i)"
      using Suc.prems False
      by (rule_tac annihilation_step_nth) (simp_all add: length_annihilation_fold)
    finally show ?thesis
      using ih by auto
  qed
qed

lemma creation_loop_fold:
  "\<forall>n\<in>set ns. n < length coeffs \<and> Suc n < length new \<Longrightarrow>
   creation_loop coeffs ns new = Inr (fold (creation_step coeffs) ns new)"
  by (induction ns arbitrary: new) (simp_all add: creation_step_def)

lemma annihilation_loop_fold:
  "\<forall>n\<in>set ns. n < length coeffs \<and> 0 < n \<and> n \<le> length new \<Longrightarrow>
   annihilation_loop coeffs ns new = Inr (fold (annihilation_step coeffs) ns new)"
proof (induction ns arbitrary: new)
  case Nil
  then show ?case by simp
next
  case (Cons n ns)
  then have "\<forall>m\<in>set ns. m < length coeffs \<and> 0 < m
      \<and> m \<le> length (annihilation_step coeffs n new)"
    by (simp add: annihilation_step_def)
  from Cons.IH [OF this] Cons.prems show ?case
    by auto
qed

lemma apply_creation_Inr: "apply_creation coeffs = Inr (creation_result coeffs)"
  unfolding apply_creation_def creation_result_def
  by (rule creation_loop_fold) (auto simp: np_zeros_def)

lemma apply_annihilation_Inr: "apply_annihilation coeffs = Inr (annihilation_result coeffs)"
  unfolding apply_annihilation_def annihilation_result_def One_nat_def
  by (rule annihilation_loop_fold) (auto simp: np_zeros_def)

lemma length_creation_result: "length (creation_result coeffs) = length coeffs"
  by (simp add: creation_result_def length_creation_fold np_zeros_def)

lemma length_annihilation_result: "length (annihilation_result coeffs) = length coeffs"
  by (simp add: annihilation_result_def length_annihilation_fold np_zeros_def)

lemma creation_result_nth:
  "i < length coeffs \<Longrightarrow>
   creation_result coeffs ! i =
     (if 0 < i then sqrt (real i) * Re (coeffs ! (i - 1)) else 0)"
  by (auto simp: creation_result_def np_zeros_def creation_fold_nth)

lemma annihilation_result_nth:
  "i < length coeffs \<Longrightarrow>
   annihilation_result coeffs ! i =
     (if Suc i < length coeffs then sqrt (real (Suc i)) * Re (coeffs ! Suc i) else 0)"
  by (simp add: annihilation_result_def np_zeros_def annihilation_fold_nth del: upt_Suc)

lemma sum_list_map_divide:
  "sum_list (map (\<lambda>c. f c / k) xs) = sum_list (map f xs) / (k::real)"
  by (induction xs) (simp_all add: add_divide_distrib)

lemma coeffs_norm_nonneg: "0 \<le> coeffs_norm coeffs"
  unfolding coeffs_norm_def by (rule real_sqrt_ge_zero, rule sum_list_nonneg) auto

lemma coeffs_norm_scaled:
  assumes "0 < coeffs_norm coeffs"
  shows "coeffs_norm (map (\<lambda>c. c / coeffs_norm coeffs) coeffs) = 1"
proof -
  let ?S = "sum_list (map (\<lambda>c. \<bar>c\<bar> ^ 2) coeffs)"
  have S: "0 \<le> ?S" by (rule sum_list_nonneg) auto
  have n2: "(coeffs_norm coeffs)\<^sup>2 = ?S"
    using S by (simp add: coeffs_norm_def)
  have "sum_list (map (\<lambda>c. \<bar>c\<bar> ^ 2) (map (\<lambda>c. c / coeffs_norm coeffs) coeffs))
      = sum_list (map (\<lambda>c. \<bar>c\<bar> ^ 2 / (coeffs_norm coeffs)\<^sup>2) coeffs)"
    by (simp add: comp_def power_divide)
  also have "\<dots> = ?S / (coeffs_norm coeffs)\<^sup>2"
    by (rule sum_list_map_divide)
  also have "\<dots> = 1"
    using assms by (subst n2 [symmetric]) simp
  finally show ?thesis
    by (simp add: coeffs_norm_def)
qed

lemma coeffs_norm_zeros: "coeffs_norm (replicate k 0) = 0"
  by (induction k) (simp_all add: coeffs_norm_def)

lemma renormalize_zeros: "renormalize (replicate k 0) = replicate k 0"
  by (simp add: renormalize_def Let_def coeffs_norm_zeros)

lemma annihilation_result_vacuum:
  "annihilation_result (a # replicate k 0) = replicate (Suc k) 0"
  by (rule nth_equalityI) (auto simp: length_annihilation_result annihilation_result_nth nth_Cons')

subsection \<open>Creation operator\<close>

text \<open>
  Claim C3 as stated says that entry \<open>n + 1\<close> of the result is \<open>sqrt (n + 1) * coeffs[n]\<close>
  for every coefficient vector. On the complex vector \<open>[\<i>, 0]\<close> the result is the real
  vector \<open>[0, 0]\<close>: its entry 1 is 0, not \<open>sqrt 1 * \<i>\<close>.
\<close>
theorem apply_creation_complex_counterexample:
  "apply_creation [\<i>, 0] = Inr [0, 0]
   \<and> complex_of_real ([0, 0] ! 1) \<noteq> complex_of_real (sqrt (real (0 + 1))) * [\<i>, 0] ! 0"
  by (simp add: apply_creation_def np_zeros_def creation_step_def)

text \<open>
  Claim C3, amended. For every coefficient vector, real or complex, \<open>apply_creation\<close>
  returns (without raising) a real vector of the same length whose entry \<open>n + 1\<close> is
  \<open>sqrt (n + 1)\<close> times the real part of \<open>coeffs[n]\<close>, for every \<open>n\<close> from 0 to \<open>len - 2\<close>.
  Where \<open>coeffs[n]\<close> is real this is \<open>sqrt (n + 1) * coeffs[n]\<close>, so for a vector of real
  coefficients the stated formula holds at every index. The top input coefficient
  \<open>coeffs[len - 1]\<close>, whose population would move to index \<open>len\<close>, is discarded:
  replacing it by any value \<open>v\<close> leaves the result unchanged.
\<close>
theorem apply_creation_action:
  "\<exists>new. apply_creation coeffs = Inr new \<and> length new = length coeffs
     \<and> (\<forall>n. n + 1 < length coeffs \<longrightarrow>
          new ! (n + 1) = sqrt (real (n + 1)) * Re (coeffs ! n))
     \<and> (\<forall>n. n + 1 < length coeffs \<and> Im (coeffs ! n) = 0 \<longrightarrow>
          complex_of_real (new ! (n + 1)) = complex_of_real (sqrt (real (n + 1))) * coeffs ! n)
     \<and> apply_creation (coeffs[length coeffs - 1 := v]) = Inr new"
proof -
  have "creation_result (coeffs[length coeffs - 1 := v]) = creation_result coeffs"
    by (rule nth_equalityI)
       (auto simp: length_creation_result creation_result_nth nth_list_update)
  then show ?thesis
    by (simp add: apply_creation_Inr length_creation_result creation_result_nth
        complex_eq_iff)
qed

text \<open>
  Claim C3, amended, at the real vector \<open>[1, 2, 3]\<close>: the result is
  \<open>[0, 1, 2 * sqrt 2]\<close>, also when the top coefficient is 7 instead of 3; and at a
  vector with a complex entry, \<open>[3 + 4 \<i>, 0]\<close>, whose result is \<open>[0, 3]\<close>.
\<close>
theorem apply_creation_action_witness:
  "(\<exists>new. apply_creation [1, 2, 3] = Inr new \<and> length new = 3
     \<and> new ! 1 = 1 \<and> new ! 2 = sqrt 2 * 2
     \<and> complex_of_real (new ! 2) = complex_of_real (sqrt 2) * 2
     \<and> apply_creation [1, 2, 7] = Inr new)
   \<and> (\<exists>new. apply_creation [3 + 4 * \<i>, 0] = Inr new \<and> new ! 1 = 3)"
proof -
  obtain new where a: "apply_creation [1, 2, 3] = Inr new"
    and l: "length new = length [1, 2, 3::complex]"
    and n: "\<forall>n. n + 1 < length [1, 2, 3::complex] \<longrightarrow>
        new ! (n + 1) = sqrt (real (n + 1)) * Re ([1, 2, 3] ! n)"
    and r: "\<forall>n. n + 1 < length [1, 2, 3::complex] \<and> Im ([1, 2, 3::complex] ! n) = 0 \<longrightarrow>
        complex_of_real (new ! (n + 1)) = complex_of_real (sqrt (real (n + 1))) * [1, 2, 3] ! n"
    and t: "apply_creation ([1, 2, 3][length [1, 2, 3::complex] - 1 := 7]) = Inr new"
    using apply_creation_action [of "[1, 2, 3]" 7] by blast
  from n [rule_format, of 0] n [rule_format, of 1] r [rule_format, of 1] a l t
  have first: "\<exists>new. apply_creation [1, 2, 3] = Inr new \<and> length new = 3
     \<and> new ! 1 = 1 \<and> new ! 2 = sqrt 2 * 2
     \<and> complex_of_real (new ! 2) = complex_of_real (sqrt 2) * 2
     \<and> apply_creation [1, 2, 7] = Inr new"
    by (simp add: numeral_2_eq_2)
  obtain new' where a': "apply_creation [3 + 4 * \<i>, 0] = Inr new'"
    and n': "\<forall>n. n + 1 < length [3 + 4 * \<i>, 0] \<longrightarrow>
        new' ! (n + 1) = sqrt (real (n + 1)) * Re ([3 + 4 * \<i>, 0] ! n)"
    using apply_creation_action [of "[3 + 4 * \<i>, 0]" 0] by blast
  from n' [rule_format, of 0] a' have "\<exists>new. apply_creation [3 + 4 * \<i>, 0] = Inr new \<and> new ! 1 = 3"
    by simp
  with first show ?thesis by blast
qed

subsection \<open>Annihilation operator\<close>

text \<open>
  Claim C4 as stated requires entry 0 of the result to be zero always, and entry
  \<open>n - 1\<close> to be \<open>sqrt n * coeffs[n]\<close> for every coefficient vector. The loop writes
  \<open>sqrt 1 * coeffs[1]\<close> to entry 0: the vector \<open>[0, 1]\<close> is mapped to \<open>[1, 0]\<close>, whose
  entry 0 is not zero. On the complex vector \<open>[0, \<i>]\<close> the result is the real vector
  \<open>[0, 0]\<close>, whose entry 0 is not \<open>sqrt 1 * \<i>\<close>.
\<close>
theorem apply_annihilation_first_entry_counterexample:
  "apply_annihilation [0, 1] = Inr [1, 0] \<and> [1, 0 :: real] ! 0 \<noteq> 0
   \<and> apply_annihilation [0, \<i>] = Inr [0, 0]
   \<and> complex_of_real ([0, 0] ! (1 - 1)) \<noteq> complex_of_real (sqrt (real 1)) * [0, \<i>] ! 1"
  by (simp add: apply_annihilation_def np_zeros_def annihilation_step_def)

text \<open>
  Claim C4, amended. For every coefficient vector, real or complex,
  \<open>apply_annihilation\<close> returns (without raising) a real vector of the same length whose
  entry \<open>n - 1\<close> is \<open>sqrt n\<close> times the real part of \<open>coeffs[n]\<close>, for every \<open>n\<close> from 1 to
  \<open>len - 1\<close>; where \<open>coeffs[n]\<close> is real this is \<open>sqrt n * coeffs[n]\<close>. Its last entry,
  index \<open>len - 1\<close>, is zero; the input coefficient \<open>coeffs[0]\<close> does not contribute
  (replacing it by any \<open>v\<close> leaves the result unchanged); and the vacuum state,
  \<open>coeffs[0] = a\<close> with all other entries zero, is mapped to the zero vector.
\<close>
theorem apply_annihilation_action:
  "\<exists>new. apply_annihilation coeffs = Inr new \<and> length new = length coeffs
     \<and> (\<forall>n. 1 \<le> n \<and> n < length coeffs \<longrightarrow>
          new ! (n - 1) = sqrt (real n) * Re (coeffs ! n))
     \<and> (\<forall>n. 1 \<le> n \<and> n < length coeffs \<and> Im (coeffs ! n) = 0 \<longrightarrow>
          complex_of_real (new ! (n - 1)) = complex_of_real (sqrt (real n)) * coeffs ! n)
     \<and> (0 < length coeffs \<longrightarrow> new ! (length coeffs - 1) = 0)
     \<and> apply_annihilation (coeffs[0 := v]) = Inr new
     \<and> apply_annihilation (a # replicate k 0) = Inr (replicate (Suc k) 0)"
proof -
  have "annihilation_result (coeffs[0 := v]) = annihilation_result coeffs"
    by (rule nth_equalityI)
       (auto simp: length_annihilation_result annihilation_result_nth nth_list_update)
  then show ?thesis
    by (auto simp: apply_annihilation_Inr length_annihilation_result
        annihilation_result_nth annihilation_result_vacuum complex_eq_iff)
qed

text \<open>
  Claim C4, amended, at the real vector \<open>[1, 2, 3]\<close>: the result is
  \<open>[2, 3 * sqrt 2, 0]\<close>, also when the bottom coefficient is 7 instead of 1; and at a
  vector with a complex entry, \<open>[0, 3 + 4 \<i>]\<close>, whose result is \<open>[3, 0]\<close>.
\<close>
theorem apply_annihilation_action_witness:
  "(\<exists>new. apply_annihilation [1, 2, 3] = Inr new \<and> length new = 3
     \<and> new ! 0 = 2 \<and> new ! 1 = sqrt 2 * 3 \<and> new ! 2 = 0
     \<and> complex_of_real (new ! 1) = complex_of_real (sqrt 2) * 3
     \<and> apply_annihilation [7, 2, 3] = Inr new)
   \<and> (\<exists>new. apply_annihilation [0, 3 + 4 * \<i>] = Inr new \<and> new ! 0 = 3 \<and> new ! 1 = 0)"
proof -
  obtain new where a: "apply_annihilation [1, 2, 3] = Inr new"
    and l: "length new = length [1, 2, 3::complex]"
    and n: "\<forall>n. 1 \<le> n \<and> n < length [1, 2, 3::complex] \<longrightarrow>
        new ! (n - 1) = sqrt (real n) * Re ([1, 2, 3] ! n)"
    and r: "\<forall>n. 1 \<le> n \<and> n < length [1, 2, 3::complex] \<and> Im ([1, 2, 3::complex] ! n) = 0 \<longrightarrow>
        complex_of_real (new ! (n - 1)) = complex_of_real (sqrt (real n)) * [1, 2, 3] ! n"
    and z: "0 < length [1, 2, 3::complex] \<longrightarrow> new ! (length [1, 2, 3::complex] - 1) = 0"
    and t: "apply_annihilation ([1, 2, 3][0 := 7]) = Inr new"
    using apply_annihilation_action [of "[1, 2, 3]" 7] by blast
  from n [rule_format, of 1] n [rule_format, of 2] r [rule_format, of 2] a l z t
  have first: "\<exists>new. apply_annihilation [1, 2, 3] = Inr new \<and> length new = 3
     \<and> new ! 0 = 2 \<and> new ! 1 = sqrt 2 * 3 \<and> new ! 2 = 0
     \<and> complex_of_real (new ! 1) = complex_of_real (sqrt 2) * 3
     \<and> apply_annihilation [7, 2, 3] = Inr new"
    by (simp add: numeral_2_eq_2)
  obtain new' where a': "apply_annihilation [0, 3 + 4 * \<i>] = Inr new'"
    and n': "\<forall>n. 1 \<le> n \<and> n < length [0, 3 + 4 * \<i>] \<longrightarrow>
        new' ! (n - 1) = sqrt (real n) * Re ([0, 3 + 4 * \<i>] ! n)"
    and z': "0 < length [0, 3 + 4 * \<i>] \<longrightarrow> new' ! (length [0, 3 + 4 * \<i>] - 1) = 0"
    using apply_annihilation_action [of "[0, 3 + 4 * \<i>]" 0] by blast
  from n' [rule_format, of 1] z' a'
  have "\<exists>new. apply_annihilation [0, 3 + 4 * \<i>] = Inr new \<and> new ! 0 = 3 \<and> new ! 1 = 0"
    by simp
  with first show ?thesis by blast
qed

subsection \<open>Boundary slots\<close>

text \<open>
  Claim C10. For every input vector of length at least 1, the vector returned by
  \<open>apply_creation\<close> has entry 0 equal to zero, and the vector returned by
  \<open>apply_annihilation\<close> has its last entry, index \<open>len - 1\<close>, equal to zero.
\<close>
theorem ladder_boundary_slots:
  assumes "1 \<le> length coeffs"
  shows "(\<exists>new. apply_creation coeffs = Inr new \<and> new ! 0 = 0) \<and>
   (\<exists>new. apply_annihilation coeffs = Inr new \<and> new ! (length coeffs - 1) = 0)"
proof -
  from assms have pos: "0 < length coeffs" by (cases coeffs) simp_all
  then have c: "creation_result coeffs ! 0 = 0"
    by (simp add: creation_result_nth)
  from pos have "length coeffs - 1 < length coeffs" by simp
  then have a: "annihilation_result coeffs ! (length coeffs - 1) = 0"
    using pos by (simp add: annihilation_result_nth)
  from c a show ?thesis
    by (simp add: apply_creation_Inr apply_annihilation_Inr)
qed

text \<open>Claim C10 at the vector \<open>[5, 6]\<close>.\<close>
theorem ladder_boundary_slots_witness:
  "1 \<le> length [5, 6 :: complex] \<and>
   (\<exists>new. apply_creation [5, 6] = Inr new \<and> new ! 0 = 0) \<and>
   (\<exists>new. apply_annihilation [5, 6] = Inr new \<and> new ! (length [5, 6 :: complex] - 1) = 0)"
  using ladder_boundary_slots [of "[5, 6]"] by simp

subsection \<open>Renormalisation\<close>

text \<open>
  Claim C5. With \<open>norm = sqrt (\<Sum> |c|\<^sup>2)\<close>: if \<open>norm > 1e-10\<close> the renormalisation
  divides every coefficient by \<open>norm\<close>, which is then not zero, and the result has norm
  1; otherwise the vector is returned unchanged. The zero vector is returned unchanged.
  Both callbacks are their operator followed by this renormalisation, and the
  annihilation callback maps the vacuum state to the zero vector.
\<close>
theorem renormalize_guarded:
  "(coeffs_norm coeffs > 1 / 10 ^ 10 \<longrightarrow>
      coeffs_norm coeffs \<noteq> 0
      \<and> renormalize coeffs = map (\<lambda>c. c / coeffs_norm coeffs) coeffs
      \<and> coeffs_norm (renormalize coeffs) = 1)
   \<and> (\<not> coeffs_norm coeffs > 1 / 10 ^ 10 \<longrightarrow> renormalize coeffs = coeffs)
   \<and> renormalize (replicate k 0) = replicate k 0
   \<and> (\<exists>new. apply_creation (map complex_of_real coeffs) = Inr new
        \<and> apply_creation_op coeffs = Inr (renormalize new))
   \<and> (\<exists>new. apply_annihilation (map complex_of_real coeffs) = Inr new
        \<and> apply_annihilation_op coeffs = Inr (renormalize new))
   \<and> apply_annihilation_op (a # replicate k 0) = Inr (replicate (Suc k) 0)"
proof -
  have big: "coeffs_norm coeffs > 1 / 10 ^ 10 \<Longrightarrow>
      coeffs_norm (map (\<lambda>c. c / coeffs_norm coeffs) coeffs) = 1"
    by (rule coeffs_norm_scaled) (simp add: less_trans [rotated])
  have "map complex_of_real (a # replicate k 0) = complex_of_real a # replicate k 0"
    by simp
  then have vac: "apply_annihilation_op (a # replicate k 0) = Inr (replicate (Suc k) 0)"
    using renormalize_zeros [of "Suc k"]
    by (simp add: apply_annihilation_op_def apply_annihilation_Inr annihilation_result_vacuum
        del: replicate_Suc)
  show ?thesis
    using big vac
    by (auto simp: renormalize_def Let_def renormalize_zeros [unfolded renormalize_def Let_def]
        apply_creation_op_def apply_annihilation_op_def apply_creation_Inr apply_annihilation_Inr)
qed

text \<open>
  Claim C5 at \<open>[3, 4]\<close>, of norm 5 (the dividing branch), and at \<open>[0, 0]\<close>, of norm 0
  (the guarded branch).
\<close>
theorem renormalize_guarded_witness:
  "coeffs_norm [3, 4] = 5 \<and> renormalize [3, 4] = [3 / 5, 4 / 5]
   \<and> coeffs_norm (renormalize [3, 4]) = 1
   \<and> coeffs_norm [0, 0] = 0 \<and> renormalize [0, 0] = [0, 0]"
proof -
  have "(3::real)\<^sup>2 + 4\<^sup>2 = 5\<^sup>2" by simp
  then have n: "coeffs_norm [3, 4] = 5"
    by (simp add: coeffs_norm_def del: power2_eq_square)
  have z: "coeffs_norm [0, 0] = 0" by (simp add: coeffs_norm_def)
  have g: "1 / 10 ^ 10 < coeffs_norm [3, 4]" using n by simp
  have h: "\<not> 1 / 10 ^ 10 < coeffs_norm [0, 0]" using z by simp
  from renormalize_guarded [of "[3, 4]" 0 0] g
  have a: "renormalize [3, 4] = map (\<lambda>c. c / coeffs_norm [3, 4]) [3, 4]"
    and b: "coeffs_norm (renormalize [3, 4]) = 1" by blast+
  from renormalize_guarded [of "[0, 0]" 0 0] h
  have c: "renormalize [0, 0] = [0, 0]" by blast
  from a n have a': "renormalize [3, 4] = [3 / 5, 4 / 5]" by simp
  from n a' b z c show ?thesis by blast
qed

section \<open>Properties of the basis transform\<close>

lemma length_position_wavefunction_grid [simp]:
  "length (position_wavefunction_grid self n) = length (self_x self)"
  by (simp add: position_wavefunction_grid_def)

lemma length_e2p_step:
  "length psi = length (self_x self) \<Longrightarrow>
   length (e2p_step self c n psi) = length (self_x self)"
  by (simp add: e2p_step_def)

lemma e2p_step_nth:
  "length psi = length (self_x self) \<Longrightarrow> i < length (self_x self) \<Longrightarrow>
   e2p_step self c n psi ! i =
     psi ! i + c ! n * complex_of_real (position_wavefunction self n (self_x self ! i))"
  by (simp add: e2p_step_def position_wavefunction_grid_def)

lemma length_e2p_fold:
  "length psi = length (self_x self) \<Longrightarrow>
   length (fold (e2p_step self c) ns psi) = length (self_x self)"
  by (induction ns arbitrary: psi) (simp_all add: length_e2p_step)

lemma e2p_fold_nth:
  "length psi = length (self_x self) \<Longrightarrow> i < length (self_x self) \<Longrightarrow>
   fold (e2p_step self c) [0..<k] psi ! i =
     psi ! i + (\<Sum>n<k. c ! n * complex_of_real (position_wavefunction self n (self_x self ! i)))"
proof (induction k)
  case 0
  then show ?case by simp
next
  case (Suc k)
  have "fold (e2p_step self c) [0..<Suc k] psi ! i =
      e2p_step self c k (fold (e2p_step self c) [0..<k] psi) ! i"
    by simp
  also have "\<dots> = fold (e2p_step self c) [0..<k] psi ! i
      + c ! k * complex_of_real (position_wavefunction self k (self_x self ! i))"
    using Suc.prems by (intro e2p_step_nth length_e2p_fold)
  finally show ?case
    using Suc by simp
qed

lemma length_energy_to_position:
  "length (energy_to_position self c) = length (self_x self)"
  by (simp add: energy_to_position_def Let_def length_e2p_fold)

lemma energy_to_position_nth:
  "i < length (self_x self) \<Longrightarrow>
   energy_to_position self c ! i =
     (\<Sum>n<length c. c ! n * complex_of_real (position_wavefunction self n (self_x self ! i)))"
  by (simp add: energy_to_position_def Let_def e2p_fold_nth)

lemma position_wavefunction_formula:
  "position_wavefunction self n xv =
     sqrt (2 / self_L self) * sin ((real n + 1) * pi * xv / self_L self)"
  by (simp add: position_wavefunction_def Let_def)

lemma energy_to_position_linear:
  assumes "length c = length d"
  shows "energy_to_position self (map2 (\<lambda>u v. a * u + b * v) c d) =
     map2 (\<lambda>u v. a * u + b * v) (energy_to_position self c) (energy_to_position self d)"
proof (rule nth_equalityI)
  show "length (energy_to_position self (map2 (\<lambda>u v. a * u + b * v) c d)) =
      length (map2 (\<lambda>u v. a * u + b * v) (energy_to_position self c) (energy_to_position self d))"
    by (simp add: length_energy_to_position)
next
  fix i
  assume "i < length (energy_to_position self (map2 (\<lambda>u v. a * u + b * v) c d))"
  then have i: "i < length (self_x self)"
    by (simp add: length_energy_to_position)
  let ?w = "\<lambda>n. complex_of_real (position_wavefunction self n (self_x self ! i))"
  have "(\<Sum>n<length c. map2 (\<lambda>u v. a * u + b * v) c d ! n * ?w n) =
      (\<Sum>n<length c. a * (c ! n * ?w n) + b * (d ! n * ?w n))"
    using assms by (intro sum.cong) (simp_all add: algebra_simps)
  also have "\<dots> = a * (\<Sum>n<length c. c ! n * ?w n) + b * (\<Sum>n<length c. d ! n * ?w n)"
    by (simp add: sum.distrib sum_distrib_left)
  finally show "energy_to_position self (map2 (\<lambda>u v. a * u + b * v) c d) ! i =
      map2 (\<lambda>u v. a * u + b * v) (energy_to_position self c) (energy_to_position self d) ! i"
    using i assms by (simp add: energy_to_position_nth length_energy_to_position)
qed

subsection \<open>Forward transform\<close>

text \<open>
  Claim C2. For every coefficient vector \<open>c\<close> and every grid point \<open>x\<^sub>i\<close>,
  \<open>energy_to_position\<close> returns at index \<open>i\<close> the sum over \<open>n\<close> of \<open>c[n]\<close> times the
  analytic eigenfunction \<open>sqrt (2 / L) * sin ((n + 1) * pi * x\<^sub>i / L)\<close>; the result
  is aligned with the grid; and the operation is linear in the coefficient vector.
  It is a function of the engine and the coefficient vector alone.
\<close>
theorem energy_to_position_correct:
  "length (energy_to_position self c) = length (self_x self)
   \<and> (\<forall>i<length (self_x self). energy_to_position self c ! i =
        (\<Sum>n<length c. c ! n *
           complex_of_real (sqrt (2 / self_L self)
             * sin ((real n + 1) * pi * (self_x self ! i) / self_L self))))
   \<and> (length c = length d \<longrightarrow>
        energy_to_position self (map2 (\<lambda>u v. a * u + b * v) c d) =
        map2 (\<lambda>u v. a * u + b * v) (energy_to_position self c) (energy_to_position self d))"
  using energy_to_position_linear [of c d self a b]
  by (simp add: length_energy_to_position energy_to_position_nth
      position_wavefunction_formula)

lemma np_linspace_3: "np_linspace 0 1 3 = Inr [0, 1 / 2, 1]"
  by (simp add: np_linspace_def upt_rec)

lemma init_1_1_3:
  "init 1 1 3 = Inr \<lparr>self_L = 1, self_n_max = 1, self_x = [0, 1 / 2, 1], self_dx = 1 / 2\<rparr>"
  by (simp add: init_def np_linspace_3)

text \<open>
  Claim C2 on the engine built by \<open>ParticleInBox(L=1, n_max=1, n_points=3)\<close>: the
  ground state has the value \<open>sqrt 2\<close> at the middle grid point, and the transform of
  \<open>2 * [1] + 3 * [1]\<close> is the same combination of the transforms.
\<close>
theorem energy_to_position_correct_witness:
  "init 1 1 3 = Inr \<lparr>self_L = 1, self_n_max = 1, self_x = [0, 1 / 2, 1], self_dx = 1 / 2\<rparr>
   \<and> energy_to_position \<lparr>self_L = 1, self_n_max = 1, self_x = [0, 1 / 2, 1], self_dx = 1 / 2\<rparr> [1] ! 1
       = complex_of_real (sqrt 2)
   \<and> energy_to_position \<lparr>self_L = 1, self_n_max = 1, self_x = [0, 1 / 2, 1], self_dx = 1 / 2\<rparr> [5]
       = map2 (\<lambda>u v. 2 * u + 3 * v)
          (energy_to_position \<lparr>self_L = 1, self_n_max = 1, self_x = [0, 1 / 2, 1], self_dx = 1 / 2\<rparr> [1])
          (energy_to_position \<lparr>self_L = 1, self_n_max = 1, self_x = [0, 1 / 2, 1], self_dx = 1 / 2\<rparr> [1])"
proof -
  let ?p = "\<lparr>self_L = 1, self_n_max = 1, self_x = [0, 1 / 2, 1], self_dx = 1 / 2\<rparr>"
  note t = energy_to_position_correct [of ?p "[1]" "[1]" 2 3]
  from t have "\<forall>i<length (self_x ?p). energy_to_position ?p [1] ! i =
        (\<Sum>n<length [1::complex]. [1] ! n *
           complex_of_real (sqrt (2 / self_L ?p)
             * sin ((real n + 1) * pi * (self_x ?p ! i) / self_L ?p)))"
    by blast
  from this [rule_format, of 1]
  have a: "energy_to_position ?p [1] ! 1 = complex_of_real (sqrt 2)"
    by simp
  from t have b: "energy_to_position ?p (map2 (\<lambda>u v. 2 * u + 3 * v) [1] [1]) =
      map2 (\<lambda>u v. 2 * u + 3 * v) (energy_to_position ?p [1]) (energy_to_position ?p [1])"
    by simp
  from a b init_1_1_3 show ?thesis by simp
qed

subsection \<open>No truncation at the basis size\<close>

lemma np_linspace_5: "np_linspace 0 1 5 = Inr [0, 1 / 4, 1 / 2, 3 / 4, 1]"
  by (simp add: np_linspace_def upt_rec)

text \<open>
  Claim C6 as stated says that coefficients at indices \<open>n_max\<close> and beyond do not
  contribute. On the engine built by \<open>ParticleInBox(L=1, n_max=1, n_points=5)\<close> the
  vector \<open>[0, 1]\<close>, one longer than \<open>n_max\<close>, is not transformed like its first
  \<open>n_max\<close> coefficients: the second coefficient contributes \<open>sqrt 2\<close> at \<open>x = 1/4\<close>.
\<close>
theorem energy_to_position_truncation_counterexample:
  "init 1 1 5 = Inr \<lparr>self_L = 1, self_n_max = 1, self_x = [0, 1 / 4, 1 / 2, 3 / 4, 1], self_dx = 1 / 4\<rparr>
   \<and> energy_to_position
        \<lparr>self_L = 1, self_n_max = 1, self_x = [0, 1 / 4, 1 / 2, 3 / 4, 1], self_dx = 1 / 4\<rparr> [0, 1]
      \<noteq> energy_to_position
        \<lparr>self_L = 1, self_n_max = 1, self_x = [0, 1 / 4, 1 / 2, 3 / 4, 1], self_dx = 1 / 4\<rparr>
        (take (nat (self_n_max
          \<lparr>self_L = 1, self_n_max = 1, self_x = [0, 1 / 4, 1 / 2, 3 / 4, 1], self_dx = 1 / 4\<rparr>))
          [0, 1])"
proof -
  let ?p = "\<lparr>self_L = 1, self_n_max = 1, self_x = [0, 1 / 4, 1 / 2, 3 / 4, 1], self_dx = 1 / 4\<rparr>"
  have i: "init 1 1 5 = Inr ?p"
    by (simp add: init_def np_linspace_5)
  have a: "energy_to_position ?p [0, 1] ! 1 = complex_of_real (sqrt 2)"
    by (simp add: energy_to_position_nth position_wavefunction_formula lessThan_Suc
        numeral_2_eq_2)
  have b: "energy_to_position ?p (take 1 [0, 1]) ! 1 = 0"
    by (simp add: energy_to_position_nth position_wavefunction_formula)
  from a b have "energy_to_position ?p [0, 1] \<noteq> energy_to_position ?p (take 1 [0, 1])"
    by (metis of_real_eq_0_iff real_sqrt_eq_zero_cancel_iff zero_neq_numeral)
  with i show ?thesis by simp
qed

text \<open>
  Claim C6, amended. \<open>energy_to_position\<close> does not consult \<open>n_max\<close>: its result is
  the same whatever the configured basis size, and for a coefficient vector of any
  length, also one longer than \<open>n_max\<close>, every coefficient contributes its eigenfunction
  at every grid point. Nothing is dropped and nothing is raised.
\<close>
theorem energy_to_position_ignores_n_max:
  "energy_to_position (self\<lparr>self_n_max := k\<rparr>) c = energy_to_position self c
   \<and> length (energy_to_position self c) = length (self_x self)
   \<and> (\<forall>i<length (self_x self). energy_to_position self c ! i =
        (\<Sum>n<length c. c ! n *
           complex_of_real (position_wavefunction self n (self_x self ! i))))"
proof -
  have "position_wavefunction (self\<lparr>self_n_max := k\<rparr>) = position_wavefunction self"
    by (intro ext) (simp add: position_wavefunction_def)
  then have "e2p_step (self\<lparr>self_n_max := k\<rparr>) c = e2p_step self c"
    by (intro ext) (simp add: e2p_step_def position_wavefunction_grid_def)
  then show ?thesis
    by (simp add: energy_to_position_def length_e2p_fold e2p_fold_nth)
qed

text \<open>
  Claim C6, amended, on a three point grid with \<open>n_max = 1\<close>: the third coefficient
  of \<open>[0, 0, 1]\<close> contributes \<open>- sqrt 2\<close> at the middle point, as it does with
  \<open>n_max = 3\<close>.
\<close>
theorem energy_to_position_ignores_n_max_witness:
  "energy_to_position \<lparr>self_L = 1, self_n_max = 1, self_x = [0, 1 / 2, 1], self_dx = 1 / 2\<rparr> [0, 0, 1] ! 1
     = - complex_of_real (sqrt 2)
   \<and> energy_to_position \<lparr>self_L = 1, self_n_max = 3, self_x = [0, 1 / 2, 1], self_dx = 1 / 2\<rparr> [0, 0, 1]
     = energy_to_position \<lparr>self_L = 1, self_n_max = 1, self_x = [0, 1 / 2, 1], self_dx = 1 / 2\<rparr> [0, 0, 1]"
proof -
  let ?p = "\<lparr>self_L = 1, self_n_max = 1, self_x = [0, 1 / 2, 1], self_dx = 1 / 2\<rparr>"
  note t = energy_to_position_ignores_n_max [where self = ?p and k = 3 and c = "[0, 0, 1]"]
  from t have "\<forall>i<length (self_x ?p). energy_to_position ?p [0, 0, 1] ! i =
        (\<Sum>n<length [0, 0, 1::complex]. [0, 0, 1] ! n *
           complex_of_real (position_wavefunction ?p n (self_x ?p ! i)))"
    by blast
  from this [rule_format, of 1]
  have a: "energy_to_position ?p [0, 0, 1] ! 1 = - complex_of_real (sqrt 2)"
    using sin_3over2_pi
    by (simp add: position_wavefunction_formula lessThan_Suc numeral_2_eq_2 numeral_3_eq_3)
  from t have b: "energy_to_position (?p\<lparr>self_n_max := 3\<rparr>) [0, 0, 1] = energy_to_position ?p [0, 0, 1]"
    by blast
  from a b show ?thesis by simp
qed

subsection \<open>Construction on a grid of fewer than two points\<close>

text \<open>
  Claim C7 as stated says that the construction fails with \<open>InvalidGridError\<close>.
  \<open>ParticleInBox(L=1, n_max=10, n_points=1)\<close> fails with \<open>IndexError\<close>, raised by
  reading \<open>self.x[1]\<close>.
\<close>
theorem init_one_point_counterexample:
  "init 1 10 1 = Inl IndexError \<and> init 1 10 1 \<noteq> Inl InvalidGridError"
  by (simp add: init_def np_linspace_def)

text \<open>
  Claim C7, amended. Constructing the engine with fewer than 2 grid points fails
  inside the constructor: with \<open>IndexError\<close> when \<open>n_points\<close> is 0 or 1, and with
  \<open>ValueError\<close>, raised by \<open>np.linspace\<close>, when \<open>n_points\<close> is negative.
\<close>
theorem init_small_grid_fails:
  "n_points < 2 \<Longrightarrow>
   init L n_max n_points = Inl (if n_points < 0 then ValueError else IndexError)"
  by (auto simp: init_def np_linspace_def)

text \<open>Claim C7, amended, at \<open>n_points = 0\<close> and \<open>n_points = -3\<close>.\<close>
theorem init_small_grid_fails_witness:
  "(0::int) < 2 \<and> init 1 10 0 = Inl IndexError
   \<and> (-3::int) < 2 \<and> init 1 10 (-3) = Inl ValueError"
  using init_small_grid_fails [of 0 1 10] init_small_grid_fails [of "-3" 1 10] by simp


subsection \<open>Discrete orthogonality of the sine functions\<close>








subsection \<open>Trapezoidal rule and the inverse transform as sums\<close>

lemma np_diff_length: "length (np_diff xs) = length xs - 1"
  by (simp add: np_diff_def)

lemma np_diff_nth: "i < length xs - 1 \<Longrightarrow> np_diff xs ! i = xs ! Suc i - xs ! i"
  by (simp add: np_diff_def nth_tl nth_butlast)

lemma np_trapz_sum:
  assumes "length y = length xs"
  shows "np_trapz y xs =
     Inr (\<Sum>i<length xs - 1. complex_of_real (xs ! Suc i - xs ! i) * (y ! Suc i + y ! i) / 2)"
proof -
  let ?d = "np_diff xs"
  let ?s = "map2 (\<lambda>a b. a + b) (tl y) (butlast y)"
  let ?r = "map2 (\<lambda>d s. complex_of_real d * s / 2) ?d ?s"
  have ls: "length ?s = length xs - 1"
    using assms by simp
  have lr: "length ?r = length xs - 1"
    using ls by (simp add: np_diff_length)
  have "np_trapz y xs = Inr (sum_list ?r)"
    using ls by (simp add: np_trapz_def np_broadcast_def np_diff_length)
  also have "sum_list ?r = (\<Sum>i<length xs - 1. ?r ! i)"
    using lr by (simp add: sum_list_sum_nth atLeast0LessThan)
  also have "\<dots> = (\<Sum>i<length xs - 1.
      complex_of_real (xs ! Suc i - xs ! i) * (y ! Suc i + y ! i) / 2)"
  proof (rule sum.cong [OF refl])
    fix i assume "i \<in> {..<length xs - 1}"
    then have i: "i < length xs - 1" by simp
    then show "?r ! i = complex_of_real (xs ! Suc i - xs ! i) * (y ! Suc i + y ! i) / 2"
      using assms ls by (simp add: np_diff_length np_diff_nth nth_tl nth_butlast)
  qed
  finally show ?thesis .
qed

lemma p2e_step_value:
  assumes "length psi_x = length (self_x self)"
  shows "\<exists>y. np_broadcast (\<lambda>a b. complex_of_real a * b) (position_wavefunction_grid self n) psi_x
      = Inr y \<and> np_trapz y (self_x self) = Inr (trapz_coefficient self psi_x n)"
proof -
  let ?y = "map2 (\<lambda>a b. complex_of_real a * b) (position_wavefunction_grid self n) psi_x"
  have b: "np_broadcast (\<lambda>a b. complex_of_real a * b) (position_wavefunction_grid self n) psi_x
      = Inr ?y"
    using assms by (simp add: np_broadcast_def)
  have l: "length ?y = length (self_x self)"
    using assms by simp
  have "(\<Sum>i<length (self_x self) - 1.
        complex_of_real (self_x self ! Suc i - self_x self ! i) * (?y ! Suc i + ?y ! i) / 2)
      = trapz_coefficient self psi_x n"
    unfolding trapz_coefficient_def
    using assms by (intro sum.cong) (simp_all add: position_wavefunction_grid_def)
  with np_trapz_sum [OF l] b show ?thesis
    by simp
qed

lemma p2e_loop_fold:
  assumes "length psi_x = length (self_x self)"
  shows "\<forall>n\<in>set ns. n < length coefficients \<Longrightarrow>
     p2e_loop self psi_x ns coefficients =
       Inr (fold (\<lambda>n cs. cs[n := trapz_coefficient self psi_x n]) ns coefficients)"
proof (induction ns arbitrary: coefficients)
  case Nil
  then show ?case by simp
next
  case (Cons n ns)
  obtain y where y: "np_broadcast (\<lambda>a b. complex_of_real a * b)
        (position_wavefunction_grid self n) psi_x = Inr y"
      "np_trapz y (self_x self) = Inr (trapz_coefficient self psi_x n)"
    using p2e_step_value [OF assms] by blast
  have "\<forall>m\<in>set ns. m < length (coefficients[n := trapz_coefficient self psi_x n])"
    using Cons.prems by simp
  from Cons.IH [OF this] Cons.prems y show ?case
    by simp
qed

lemma fold_update_upt_nth:
  "k \<le> length cs \<Longrightarrow> m < length cs \<Longrightarrow>
   fold (\<lambda>n cs. cs[n := f n]) [0..<k] cs ! m = (if m < k then f m else cs ! m)"
proof (induction k)
  case 0
  then show ?case by simp
next
  case (Suc k)
  have len: "length (fold (\<lambda>n cs. cs[n := f n]) ns cs) = length cs" for ns
    by (induction ns arbitrary: cs) simp_all
  from Suc show ?case
    by (auto simp: len nth_list_update less_Suc_eq)
qed

lemma fold_update_upt_length:
  "length (fold (\<lambda>n cs. cs[n := f n]) ns cs) = length cs"
  by (induction ns arbitrary: cs) simp_all

lemma position_to_energy_map:
  assumes "length psi_x = length (self_x self)" "0 \<le> self_n_max self"
  shows "position_to_energy self psi_x =
     Inr (map (trapz_coefficient self psi_x) [0..<nat (self_n_max self)])"
proof -
  let ?K = "nat (self_n_max self)"
  have "p2e_loop self psi_x [0..<?K] (replicate ?K 0) =
      Inr (fold (\<lambda>n cs. cs[n := trapz_coefficient self psi_x n]) [0..<?K] (replicate ?K 0))"
    by (rule p2e_loop_fold [OF assms(1)]) simp
  moreover have "fold (\<lambda>n cs. cs[n := trapz_coefficient self psi_x n]) [0..<?K] (replicate ?K 0)
      = map (trapz_coefficient self psi_x) [0..<?K]"
    by (rule nth_equalityI) (simp_all add: fold_update_upt_length fold_update_upt_nth)
  ultimately show ?thesis
    using assms(2) by (simp add: position_to_energy_def)
qed


subsection \<open>The uniform grid\<close>








subsection \<open>Orthonormality of the sampled basis and the round trip\<close>







text \<open>
  Another engine with fewer than \<open>n_max + 2\<close> points: with \<open>n_max = 3\<close> on three grid points the
  third eigenfunction takes the values of the first with the opposite sign, and the
  round trip of the ground state returns \<open>[1, 0, -1]\<close>.
\<close>
lemma round_trip_coarse_grid:
  "init 1 3 3 = Inr \<lparr>self_L = 1, self_n_max = 3, self_x = [0, 1 / 2, 1], self_dx = 1 / 2\<rparr>
   \<and> position_to_energy \<lparr>self_L = 1, self_n_max = 3, self_x = [0, 1 / 2, 1], self_dx = 1 / 2\<rparr>
        (energy_to_position
           \<lparr>self_L = 1, self_n_max = 3, self_x = [0, 1 / 2, 1], self_dx = 1 / 2\<rparr> [1, 0, 0])
      = Inr [1, 0, - 1]"
proof -
  let ?p = "\<lparr>self_L = 1, self_n_max = 3, self_x = [0, 1 / 2, 1], self_dx = 1 / 2\<rparr>"
  have i: "init 1 3 3 = Inr ?p"
    by (simp add: init_def np_linspace_3)
  have e: "energy_to_position ?p [1, 0, 0] = [0, complex_of_real (sqrt 2), 0]"
    by (rule nth_equalityI)
       (auto simp: length_energy_to_position energy_to_position_nth
          position_wavefunction_formula less_Suc_eq numeral_3_eq_3 lessThan_Suc)
  have s: "complex_of_real (sqrt 2) * complex_of_real (sqrt 2) = 2"
    by (metis of_real_mult of_real_numeral real_sqrt_mult_self abs_numeral)
  have "position_to_energy ?p [0, complex_of_real (sqrt 2), 0] = Inr [1, 0, - 1]"
    using sin_3over2_pi
    by (simp add: position_to_energy_map trapz_coefficient_def position_wavefunction_formula
        upt_rec numeral_2_eq_2 lessThan_Suc s mult.assoc)
  with i e show ?thesis by simp
qed

section \<open>Properties of the two-level system\<close>

lemma c0_sq: "c0 * c0 = 1 / 2"
  by (simp add: c0_def c0_squared_def)

lemma c1_sq: "c1 * c1 = 1 / 2"
  by (simp add: c1_def c1_squared_def alpha_def)

lemma X_energy_entries:
  "X_energy x0 x1 =
     ((complex_of_real ((x0 + x1) / 2), complex_of_real ((x0 - x1) / 2)),
      (complex_of_real ((x0 - x1) / 2), complex_of_real ((x0 + x1) / 2)))"
proof -
  have a: "complex_of_real c0 * complex_of_real c0 = 1 / 2"
    using c0_sq by (metis of_real_mult of_real_divide of_real_1 of_real_numeral)
  have b: "complex_of_real c1 * complex_of_real c1 = 1 / 2"
    using c1_sq by (metis of_real_mult of_real_divide of_real_1 of_real_numeral)
  show ?thesis
    by (simp add: X_energy_def ket_x0_def ket_x1_def alpha_def a b algebra_simps
        mult.assoc [symmetric])
qed


lemma X_energy_hermitian: "mat_conj_T (X_energy x0 x1) = X_energy x0 x1"
  by (simp add: X_energy_entries)

lemma isclose_refl: "isclose a a"
  by (simp add: isclose_def)

lemma X_energy_eigenvectors:
  "mat_ket (X_energy x0 x1) ket_x0 = vec_scale (complex_of_real x0) ket_x0"
  "mat_ket (X_energy x0 x1) ket_x1 = vec_scale (complex_of_real x1) ket_x1"
  by (simp_all add: X_energy_entries ket_x0_def ket_x1_def alpha_def complex_eq_iff
      field_simps)

lemma ket_x0_nonzero: "ket_x0 \<noteq> (0, 0)"
  using c0_sq by (auto simp: ket_x0_def)

lemma ket_x1_nonzero: "ket_x1 \<noteq> (0, 0)"
  using c1_sq by (auto simp: ket_x1_def)

lemma eigh_values_X_energy:
  "eigh_values (X_energy x0 x1) = (min x0 x1, max x0 x1)"
proof -
  have "sqrt (((x0 - x1) / 2)\<^sup>2) = \<bar>x0 - x1\<bar> / 2"
    by (simp add: real_sqrt_abs)
  then have "eigh_values (X_energy x0 x1) =
      ((x0 + x1) / 2 - \<bar>x0 - x1\<bar> / 2, (x0 + x1) / 2 + \<bar>x0 - x1\<bar> / 2)"
    by (simp add: X_energy_entries Let_def norm_divide del: of_real_divide)
  then show ?thesis
    by (auto simp: min_def max_def abs_if field_simps)
qed

subsection \<open>Position operator\<close>

text \<open>
  Claim C8 as stated says that the Hermiticity check fails with \<open>ConsistencyError\<close>
  when it does not hold. The step prints the outcome and raises nothing: on the
  matrix with rows \<open>(0, 1)\<close> and \<open>(0, 0)\<close>, which is not Hermitian, it yields the printed
  value \<open>False\<close>.
\<close>
theorem verify_hermitian_counterexample:
  "verify_hermitian ((0, 1), (0, 0)) = Inr False
   \<and> verify_hermitian ((0, 1), (0, 0)) \<noteq> Inl ConsistencyError"
  by (simp add: verify_hermitian_def isclose_def)

text \<open>
  Claim C8, amended. For arbitrary real \<open>x0\<close> and \<open>x1\<close> the constructed operator
  \<open>X = x0 |x0><x0| + x1 |x1><x1|\<close> equals its conjugate transpose, so that the check
  prints \<open>True\<close>; the check raises on no matrix; the eigenvalues returned in ascending
  order are the smaller and the larger of \<open>x0\<close> and \<open>x1\<close>; and \<open>ket_x0\<close> and \<open>ket_x1\<close>
  are eigenvectors of \<open>X\<close> for \<open>x0\<close> and \<open>x1\<close>.
\<close>
theorem position_operator_construction:
  "mat_conj_T (X_energy x0 x1) = X_energy x0 x1
   \<and> verify_hermitian (X_energy x0 x1) = Inr True
   \<and> (\<forall>M. \<exists>b. verify_hermitian M = Inr b)
   \<and> eigh_values (X_energy x0 x1) = (min x0 x1, max x0 x1)
   \<and> mat_ket (X_energy x0 x1) ket_x0 = vec_scale (complex_of_real x0) ket_x0
   \<and> mat_ket (X_energy x0 x1) ket_x1 = vec_scale (complex_of_real x1) ket_x1
   \<and> ket_x0 \<noteq> (0, 0) \<and> ket_x1 \<noteq> (0, 0)"
proof -
  have "verify_hermitian (X_energy x0 x1) = Inr True"
    unfolding verify_hermitian_def X_energy_hermitian
    by (cases "X_energy x0 x1") (auto simp: isclose_refl)
  then show ?thesis
    by (simp add: X_energy_hermitian eigh_values_X_energy X_energy_eigenvectors
        ket_x0_nonzero ket_x1_nonzero verify_hermitian_def)
qed

text \<open>
  Claim C8, amended, at the script's values \<open>x0 = 1\<close> and \<open>x1 = -1\<close>: the operator has
  rows \<open>(0, 1)\<close> and \<open>(1, 0)\<close> and the eigenvalues \<open>-1\<close> and \<open>1\<close>.
\<close>
theorem position_operator_construction_witness:
  "X_energy 1 (- 1) = ((0, 1), (1, 0))
   \<and> mat_conj_T ((0, 1), (1, 0)) = ((0, 1), (1, 0))
   \<and> verify_hermitian ((0, 1), (1, 0)) = Inr True
   \<and> eigh_values ((0, 1), (1, 0)) = (- 1, 1)"
proof -
  have e: "X_energy 1 (- 1) = ((0, 1), (1, 0))"
    by (simp add: X_energy_entries)
  from position_operator_construction [of 1 "- 1"] show ?thesis
    unfolding e by simp
qed

end
